theory Spec2Isabelle
  imports Complex_Main
begin

section \<open>Arithmetic of the C++ type float\<close>

text \<open>
  MCSimulation.cpp computes with \<^verbatim>\<open>float\<close> (and, where a literal such as \<^verbatim>\<open>1.0\<close> or the
  macro \<^verbatim>\<open>PI\<close> forces it, with \<^verbatim>\<open>double\<close>). A value of either type is modelled as an
  \<open>fl\<close>: a real number, one of the two infinities, or NaN. The operations follow IEEE 754
  on the special values (\<open>sqrt\<close> of a negative number and \<open>inf - inf\<close> are NaN, \<open>log 0\<close> is
  \<open>-inf\<close>, every comparison with NaN is false, \<open>NaN != x\<close> is true) and are exact on the
  finite ones: rounding to 24 or 53 bits, overflow, subnormal numbers and the sign of zero
  are not modelled. The evaluations below that set the source against a claim are done at
  dyadic positions, directions, weights and deviates, on which the binary32 additions,
  multiplications and divisions of the source are exact as well; the one inexact value
  there is the logarithm of the free path, which is only compared with a distance it
  exceeds by more than 0.2.
\<close>

datatype fl = Fin real | PInf | NInf | NaN

instantiation fl :: "{plus,minus,uminus,times,inverse,ord}"
begin

fun uminus_fl :: "fl \<Rightarrow> fl" where
  "uminus_fl (Fin a) = Fin (- a)"
| "uminus_fl PInf = NInf"
| "uminus_fl NInf = PInf"
| "uminus_fl NaN = NaN"

fun plus_fl :: "fl \<Rightarrow> fl \<Rightarrow> fl" where
  "plus_fl (Fin a) (Fin b) = Fin (a + b)"
| "plus_fl NaN _ = NaN"
| "plus_fl _ NaN = NaN"
| "plus_fl PInf NInf = NaN"
| "plus_fl NInf PInf = NaN"
| "plus_fl PInf _ = PInf"
| "plus_fl _ PInf = PInf"
| "plus_fl NInf _ = NInf"
| "plus_fl _ NInf = NInf"

definition minus_fl :: "fl \<Rightarrow> fl \<Rightarrow> fl" where
  "minus_fl a b = a + (- b)"

fun times_fl :: "fl \<Rightarrow> fl \<Rightarrow> fl" where
  "times_fl (Fin a) (Fin b) = Fin (a * b)"
| "times_fl NaN _ = NaN"
| "times_fl _ NaN = NaN"
| "times_fl (Fin a) PInf = (if a = 0 then NaN else if 0 < a then PInf else NInf)"
| "times_fl (Fin a) NInf = (if a = 0 then NaN else if 0 < a then NInf else PInf)"
| "times_fl PInf (Fin b) = (if b = 0 then NaN else if 0 < b then PInf else NInf)"
| "times_fl NInf (Fin b) = (if b = 0 then NaN else if 0 < b then NInf else PInf)"
| "times_fl PInf PInf = PInf"
| "times_fl PInf NInf = NInf"
| "times_fl NInf PInf = NInf"
| "times_fl NInf NInf = PInf"

text \<open>Division by a zero takes the zero as \<open>+0\<close>.\<close>

fun divide_fl :: "fl \<Rightarrow> fl \<Rightarrow> fl" where
  "divide_fl (Fin a) (Fin b) =
     (if b = 0 then (if a = 0 then NaN else if 0 < a then PInf else NInf) else Fin (a / b))"
| "divide_fl NaN _ = NaN"
| "divide_fl _ NaN = NaN"
| "divide_fl (Fin a) _ = Fin 0"
| "divide_fl PInf (Fin b) = (if 0 \<le> b then PInf else NInf)"
| "divide_fl NInf (Fin b) = (if 0 \<le> b then NInf else PInf)"
| "divide_fl _ _ = NaN"

definition inverse_fl :: "fl \<Rightarrow> fl" where
  "inverse_fl a = divide (Fin 1) a"

fun less_fl :: "fl \<Rightarrow> fl \<Rightarrow> bool" where
  "less_fl (Fin a) (Fin b) = (a < b)"
| "less_fl NaN _ = False"
| "less_fl _ NaN = False"
| "less_fl _ NInf = False"
| "less_fl PInf _ = False"
| "less_fl NInf _ = True"
| "less_fl _ PInf = True"

fun less_eq_fl :: "fl \<Rightarrow> fl \<Rightarrow> bool" where
  "less_eq_fl (Fin a) (Fin b) = (a \<le> b)"
| "less_eq_fl NaN _ = False"
| "less_eq_fl _ NaN = False"
| "less_eq_fl NInf _ = True"
| "less_eq_fl _ PInf = True"
| "less_eq_fl _ NInf = False"
| "less_eq_fl PInf _ = False"

instance ..

end

text \<open>\<^verbatim>\<open>a == b\<close>; \<^verbatim>\<open>a != b\<close> is its negation, so it is true when an operand is NaN.\<close>

fun feq :: "fl \<Rightarrow> fl \<Rightarrow> bool" where
  "feq NaN _ = False"
| "feq _ NaN = False"
| "feq a b = (a = b)"

text \<open>\<^verbatim>\<open>sqrt\<close>, \<^verbatim>\<open>log\<close>, \<^verbatim>\<open>std::sin\<close>, \<^verbatim>\<open>std::cos\<close>.\<close>

fun fsqrt :: "fl \<Rightarrow> fl" where
  "fsqrt (Fin a) = (if a < 0 then NaN else Fin (sqrt a))"
| "fsqrt PInf = PInf"
| "fsqrt _ = NaN"

fun flog :: "fl \<Rightarrow> fl" where
  "flog (Fin a) = (if a < 0 then NaN else if a = 0 then NInf else Fin (ln a))"
| "flog PInf = PInf"
| "flog _ = NaN"

fun fsin :: "fl \<Rightarrow> fl" where
  "fsin (Fin a) = Fin (sin a)"
| "fsin _ = NaN"

fun fcos :: "fl \<Rightarrow> fl" where
  "fcos (Fin a) = Fin (cos a)"
| "fcos _ = NaN"

text \<open>\<^verbatim>\<open>std::max(a, b)\<close> is \<^verbatim>\<open>(a < b) ? b : a\<close>.\<close>

definition std_max :: "fl \<Rightarrow> fl \<Rightarrow> fl" where
  "std_max a b = (if a < b then b else a)"

text \<open>
  The conversion \<^verbatim>\<open>(int)f\<close> truncates towards zero; its behaviour is undefined when the
  truncated value is not an \<^verbatim>\<open>int\<close> (32 bits), which includes NaN and the infinities.
  What becomes of such a conversion is a parameter \<open>c\<close> of the model: \<open>c f = None\<close> when
  nothing is assumed of it, and the run is a fault from there; \<open>c f = Some i\<close> when the
  implementation yields the \<^verbatim>\<open>int\<close> \<open>i\<close> and goes on. \<open>cvt_none\<close> assumes nothing of any
  conversion; \<open>cvt_x86\<close> is the instruction \<^verbatim>\<open>cvttss2si\<close>, which yields \<open>-2\<^sup>3\<^sup>1\<close> for each of
  them.
\<close>

type_synonym conversion = "fl \<Rightarrow> int option"

fun to_int :: "conversion \<Rightarrow> fl \<Rightarrow> int option" where
  "to_int c (Fin a) =
     (let t = (if 0 \<le> a then \<lfloor>a\<rfloor> else \<lceil>a\<rceil>)
      in if - 2147483648 \<le> t \<and> t \<le> 2147483647 then Some t else c (Fin a))"
| "to_int c f = c f"

text \<open>An implementation that yields an \<^verbatim>\<open>int\<close> for every conversion.\<close>

definition yields_always :: "conversion \<Rightarrow> bool" where
  "yields_always c = (\<forall>f. c f \<noteq> None)"

definition cvt_none :: conversion where
  "cvt_none = (\<lambda>_. None)"

definition cvt_x86 :: conversion where
  "cvt_x86 = (\<lambda>_. Some (- 2147483648))"


section \<open>The random source\<close>

text \<open>
  \<^verbatim>\<open>std::uniform_real_distribution<float> distr(0.0f, 1.0f)\<close> (line 11) produces values of
  the half-open interval \<open>[a, b)\<close> with \<open>a = 0\<close> and \<open>b = 1\<close>. The deviates of a run are a
  sequence \<open>u\<close>; the state of the generator is the number of deviates drawn so far, and
  \<^verbatim>\<open>distr(rng)\<close> returns the next one.
\<close>

definition distr_a :: real where "distr_a = 0"
definition distr_b :: real where "distr_b = 1"

definition in_distr_range :: "real \<Rightarrow> bool" where
  "in_distr_range v = (distr_a \<le> v \<and> v < distr_b)"

definition distr :: "(nat \<Rightarrow> real) \<Rightarrow> nat \<Rightarrow> fl \<times> nat" where
  "distr u k = (Fin (u k), Suc k)"


section \<open>GetCosTheta\<close>

definition GetCosTheta :: "(nat \<Rightarrow> real) \<Rightarrow> nat \<Rightarrow> fl \<Rightarrow> fl \<times> nat" where
  "GetCosTheta u k g =
     (if feq g (Fin 0) then
        (let (xi, k1) = distr u k in (Fin 2 * xi - Fin 1, k1))
      else
        (let (xi, k1) = distr u k;
             mu = (Fin 1 - g * g) / (Fin 1 - g + Fin 2 * g * xi)
         in ((Fin 1 * g * g - mu * mu) / (Fin 2 * g), k1)))"

text \<open>
  The sampler as section 4.1 of the specification words it, for comparison with the
  function above: \<open>2\<xi> - 1\<close> when \<open>g = 0\<close>, otherwise \<open>(1 + g\<^sup>2 - \<mu>\<^sup>2) / (2g)\<close> with
  \<open>\<mu> = (1 - g\<^sup>2) / (1 - g + 2g\<xi>)\<close>.
\<close>

definition PhaseFunctionSampler_spec :: "fl \<Rightarrow> fl \<Rightarrow> fl" where
  "PhaseFunctionSampler_spec g xi =
     (if feq g (Fin 0) then Fin 2 * xi - Fin 1
      else
        (let mu = (Fin 1 - g * g) / (Fin 1 - g + Fin 2 * g * xi)
         in (Fin 1 + g * g - mu * mu) / (Fin 2 * g)))"


section \<open>ScatterPhoton\<close>

text \<open>The macro \<^verbatim>\<open>PI\<close> of line 7.\<close>

definition PI :: real where
  "PI = 3.14159265359"

text \<open>
  The three references \<^verbatim>\<open>mu_x\<close>, \<^verbatim>\<open>mu_y\<close>, \<^verbatim>\<open>mu_z\<close> are passed as a triple and returned
  updated, beside the state of the generator.
\<close>

definition ScatterPhoton ::
    "(nat \<Rightarrow> real) \<Rightarrow> nat \<Rightarrow> fl \<times> fl \<times> fl \<Rightarrow> fl \<Rightarrow> (fl \<times> fl \<times> fl) \<times> nat" where
  "ScatterPhoton u k dir g =
     (case dir of (mu_x, mu_y, mu_z) \<Rightarrow>
      let (cosTheta, k1) = GetCosTheta u k g;
          (xi2, k2) = distr u k1;
          phi = Fin 2 * Fin PI * xi2;
          sinTheta = fsqrt (Fin 1 - cosTheta * cosTheta);
          sinPhi = fsin phi;
          cosPhi = fcos phi
      in if feq mu_z (Fin 1) then
           ((sinTheta * cosPhi, sinTheta * sinPhi, cosTheta), k2)
         else if feq mu_z (Fin (- 1)) then
           ((sinTheta * cosPhi, - sinTheta * sinPhi, - cosTheta), k2)
         else
           (let denom = fsqrt (Fin 1 - mu_z * mu_z);
                muzcosphi = mu_z * cosPhi;
                ux = sinTheta * (mu_x * muzcosphi - mu_y * sinPhi) / denom + mu_x * cosTheta;
                uy = sinTheta * (mu_y * muzcosphi + mu_x * sinPhi) / denom + mu_y * cosTheta;
                uz = - denom * sinTheta * cosPhi + mu_z * cosTheta
            in ((ux, uy, uz), k2)))"

text \<open>
  The norm of a direction and the test of section 8, \<open>\<parallel>v\<parallel> = 1 \<plusminus> 10\<^sup>-\<^sup>4\<close>. A direction
  with a NaN component has the norm NaN and fails the test, as every comparison with NaN
  does.
\<close>

definition norm3 :: "fl \<times> fl \<times> fl \<Rightarrow> fl" where
  "norm3 v = (case v of (a, b, c) \<Rightarrow> fsqrt (a * a + b * b + c * c))"

definition unit_within_tolerance :: "fl \<times> fl \<times> fl \<Rightarrow> bool" where
  "unit_within_tolerance v = (Fin (1 - 1 / 10000) \<le> norm3 v \<and> norm3 v \<le> Fin (1 + 1 / 10000))"


section \<open>MCSimulation\<close>

text \<open>
  The constants of lines 54 to 60. The source's \<^verbatim>\<open>d\<close>, \<^verbatim>\<open>g\<close> and \<^verbatim>\<open>m\<close> are named
  \<open>slab_d\<close>, \<open>slab_g\<close> and \<open>roulette_m\<close> here.
\<close>

definition nrPhotons :: nat where "nrPhotons = 1000000"
definition sigma_a :: fl where "sigma_a = Fin 1"
definition sigma_s :: fl where "sigma_s = Fin 2"
definition sigma_t :: fl where "sigma_t = sigma_a + sigma_s"
definition slab_d :: fl where "slab_d = Fin (1/2)"
definition slab_g :: fl where "slab_g = Fin (3/4)"
definition slabSize :: fl where "slabSize = Fin 2"
definition roulette_m :: fl where "roulette_m = Fin 10"
definition scale :: fl where "scale = Fin 1 / Fin (real nrPhotons)"

text \<open>
  The locals of one photon (line 66 and line 69; \<open>px\<close>, \<open>py\<close>, \<open>pz\<close> are the source's
  \<^verbatim>\<open>x\<close>, \<^verbatim>\<open>y\<close>, \<^verbatim>\<open>z\<close>, and \<open>mux\<close>, \<open>muy\<close>, \<open>muz\<close> its \<^verbatim>\<open>mu_x\<close>, \<^verbatim>\<open>mu_y\<close>, \<^verbatim>\<open>mu_z\<close>), and what
  outlives a photon: the sums \<^verbatim>\<open>Rd\<close> and \<^verbatim>\<open>Tt\<close>, the buffer \<^verbatim>\<open>records\<close> as a store from
  index to value, and the state of the global generator.
\<close>

record photon =
  px :: fl
  py :: fl
  pz :: fl
  mux :: fl
  muy :: fl
  muz :: fl
  weight :: fl

record sim =
  Rd :: fl
  Tt :: fl
  records :: "nat \<Rightarrow> fl"
  rng :: nat

definition init_photon :: photon where
  "init_photon =
     \<lparr>px = Fin 0, py = Fin 0, pz = Fin 0, mux = Fin 0, muy = Fin 0, muz = Fin 1,
      weight = Fin 1\<rparr>"

datatype fault = UndefinedCast

text \<open>How one run of the body of the \<^verbatim>\<open>while\<close> loop ends.\<close>

datatype flow = Break "photon \<times> sim" | Continue "photon \<times> sim" | Fault fault

text \<open>Line 74: the free path.\<close>

definition free_path :: "fl \<Rightarrow> fl" where
  "free_path xi = - flog xi / sigma_t"

text \<open>Lines 75 to 79: the distance to the edge of the slab.\<close>

definition boundary_dist :: "photon \<Rightarrow> fl" where
  "boundary_dist p =
     (if Fin 0 < muz p then (slab_d - pz p) / muz p
      else if muz p < Fin 0 then - pz p / muz p
      else Fin 0)"

text \<open>Lines 86 and 87: the cell of the exit position.\<close>

definition cell_of :: "conversion \<Rightarrow> nat \<Rightarrow> fl \<Rightarrow> int option" where
  "cell_of c sz v = to_int c ((v + slabSize / Fin 2) / slabSize * Fin (real sz))"

text \<open>
  Line 88: the guard. \<^verbatim>\<open>size\<close> is converted to \<^verbatim>\<open>float\<close> for \<^verbatim>\<open>x < size\<close>; in
  \<^verbatim>\<open>yi < size\<close> the \<^verbatim>\<open>int\<close> is converted to \<^verbatim>\<open>uint32_t\<close>, which changes nothing after
  \<^verbatim>\<open>yi >= 0\<close>.
\<close>

definition guard :: "nat \<Rightarrow> photon \<Rightarrow> int \<Rightarrow> int \<Rightarrow> bool" where
  "guard sz p xi yi =
     (Fin 0 < muz p \<and> 0 \<le> xi \<and> px p < Fin (real sz) \<and> 0 \<le> yi \<and> yi < int sz)"

text \<open>Line 89: the index \<^verbatim>\<open>yi * size + xi\<close>, computed in \<^verbatim>\<open>uint32_t\<close>.\<close>

definition index_of :: "nat \<Rightarrow> int \<Rightarrow> int \<Rightarrow> nat" where
  "index_of sz xi yi = nat ((yi * int sz + xi) mod 4294967296)"

text \<open>Lines 83 to 90: what an exiting photon adds.\<close>

definition record_exit :: "conversion \<Rightarrow> nat \<Rightarrow> photon \<Rightarrow> sim \<Rightarrow> fault + sim" where
  "record_exit c sz p st =
     (let st1 = (if Fin 0 < muz p then st\<lparr>Tt := Tt st + weight p\<rparr>
                 else st\<lparr>Rd := Rd st + weight p\<rparr>)
      in case cell_of c sz (px p) of
           None \<Rightarrow> Inl UndefinedCast
         | Some xi \<Rightarrow>
             (case cell_of c sz (py p) of
                None \<Rightarrow> Inl UndefinedCast
              | Some yi \<Rightarrow>
                  if guard sz p xi yi then
                    Inr (st1\<lparr>records := (records st1)
                           (index_of sz xi yi := records st1 (index_of sz xi yi) + weight p)\<rparr>)
                  else Inr st1))"

text \<open>Lines 101 to 103: absorption.\<close>

definition absorb :: "fl \<Rightarrow> fl" where
  "absorb w = std_max (Fin 0) (w - sigma_a / sigma_t)"

text \<open>Line 112: the call of ScatterPhoton on the photon's direction.\<close>

definition scatter :: "(nat \<Rightarrow> real) \<Rightarrow> photon \<Rightarrow> sim \<Rightarrow> photon \<times> sim" where
  "scatter u p st =
     (case ScatterPhoton u (rng st) (mux p, muy p, muz p) slab_g of
        ((a, b, c), k) \<Rightarrow> (p\<lparr>mux := a, muy := b, muz := c\<rparr>, st\<lparr>rng := k\<rparr>))"

text \<open>Lines 73 to 112: the body of the \<^verbatim>\<open>while\<close> loop.\<close>

definition body :: "conversion \<Rightarrow> (nat \<Rightarrow> real) \<Rightarrow> nat \<Rightarrow> photon \<times> sim \<Rightarrow> flow" where
  "body c u sz ps =
     (case ps of (p, st) \<Rightarrow>
      let (xi, k1) = distr u (rng st);
          s = free_path xi;
          dist = boundary_dist p
      in if dist < s then
           (case record_exit c sz p (st\<lparr>rng := k1\<rparr>) of
              Inl e \<Rightarrow> Fault e
            | Inr st' \<Rightarrow> Break (p, st'))
         else
           (let p1 = p\<lparr>px := px p + s * mux p, py := py p + s * muy p,
                      pz := pz p + s * muz p\<rparr>;
                p2 = p1\<lparr>weight := absorb (weight p1)\<rparr>
            in if weight p2 < Fin (1/1000) then
                 (let (xi3, k2) = distr u k1
                  in if Fin 1 / roulette_m < xi3 then Break (p2, st\<lparr>rng := k2\<rparr>)
                     else Continue (scatter u (p2\<lparr>weight := weight p2 * roulette_m\<rparr>)
                                      (st\<lparr>rng := k2\<rparr>)))
               else Continue (scatter u p2 (st\<lparr>rng := k1\<rparr>))))"

text \<open>
  Lines 72 to 113: the \<^verbatim>\<open>while\<close> loop of one photon. \<open>None\<close> is a loop that never ends;
  the photon's locals are returned beside the state so that they can be observed.
\<close>

partial_function (option) photon_loop ::
    "conversion \<Rightarrow> (nat \<Rightarrow> real) \<Rightarrow> nat \<Rightarrow> photon \<times> sim
     \<Rightarrow> (fault + photon \<times> sim) option" where
  "photon_loop c u sz ps =
     (if feq (weight (fst ps)) (Fin 0) then Some (Inr ps)
      else case body c u sz ps of
             Break r \<Rightarrow> Some (Inr r)
           | Fault e \<Rightarrow> Some (Inl e)
           | Continue ps' \<Rightarrow> photon_loop c u sz ps')"

text \<open>Lines 65 to 114: the \<^verbatim>\<open>for\<close> loop, with \<open>n\<close> photons to go.\<close>

fun photons ::
    "nat \<Rightarrow> conversion \<Rightarrow> (nat \<Rightarrow> real) \<Rightarrow> nat \<Rightarrow> sim \<Rightarrow> (fault + sim) option" where
  "photons 0 c u sz st = Some (Inr st)"
| "photons (Suc n) c u sz st =
     (case photon_loop c u sz (init_photon, st) of
        None \<Rightarrow> None
      | Some (Inl e) \<Rightarrow> Some (Inl e)
      | Some (Inr (p, st')) \<Rightarrow> photons n c u sz st')"

text \<open>
  MCSimulation, from the buffer \<open>recs\<close> and the generator state \<open>k\<close>: the state after the
  last photon, whose \<open>Rd\<close> and \<open>Tt\<close> line 116 prints scaled.
\<close>

definition MCSimulation ::
    "conversion \<Rightarrow> (nat \<Rightarrow> real) \<Rightarrow> nat \<Rightarrow> (nat \<Rightarrow> fl) \<Rightarrow> nat \<Rightarrow> (fault + sim) option" where
  "MCSimulation c u sz recs k =
     photons nrPhotons c u sz \<lparr>Rd = Fin 0, Tt = Fin 0, records = recs, rng = k\<rparr>"

definition printed :: "sim \<Rightarrow> fl \<times> fl" where
  "printed st = (Rd st * scale, Tt st * scale)"


section \<open>Walks and tallies\<close>

text \<open>
  The states in which a photon that starts when the simulation is in the state \<open>st0\<close>
  stands at the head of the \<^verbatim>\<open>while\<close> loop: the initial one, and every state the body
  continues with from a state that passes the loop's test \<^verbatim>\<open>weight != 0.0f\<close>.
\<close>

inductive_set walk :: "conversion \<Rightarrow> (nat \<Rightarrow> real) \<Rightarrow> nat \<Rightarrow> sim \<Rightarrow> (photon \<times> sim) set"
  for c :: conversion and u :: "nat \<Rightarrow> real" and sz :: nat and st0 :: sim where
  walk_init: "(init_photon, st0) \<in> walk c u sz st0"
| walk_step: "ps \<in> walk c u sz st0 \<Longrightarrow> \<not> feq (weight (fst ps)) (Fin 0) \<Longrightarrow>
              body c u sz ps = Continue ps' \<Longrightarrow> ps' \<in> walk c u sz st0"

text \<open>The two sums are finite and add up to at most \<open>b\<close>.\<close>

definition tally_ok :: "real \<Rightarrow> sim \<Rightarrow> bool" where
  "tally_ok b st = (\<exists>r t. Rd st = Fin r \<and> Tt st = Fin t \<and> r + t \<le> b)"

text \<open>A simulation state with empty sums and a zeroed buffer, for the evaluations below.\<close>

definition sim0 :: sim where
  "sim0 = \<lparr>Rd = Fin 0, Tt = Fin 0, records = (\<lambda>_. Fin 0), rng = 0\<rparr>"


text \<open>
  Deviates that turn the first photon sideways: the free path \<open>ln 2 / 3\<close>, then a
  resampled direction of \<open>cosTheta = 0\<close> and \<open>phi = 0\<close>, which is \<open>(1, 0, 0)\<close>; and the
  photon after that step.
\<close>

definition sideways :: "nat \<Rightarrow> real" where
  "sideways k = (if k = 1 then 2/9 else if k = 2 then 0 else 1/2)"

definition photon_sideways :: photon where
  "photon_sideways =
     \<lparr>px = Fin 0, py = Fin 0, pz = Fin (ln 2 / 3), mux = Fin 1, muy = Fin 0, muz = Fin 0,
      weight = Fin (2/3)\<rparr>"


text \<open>
  Deviates on which every photon is lost in the way the numerator of line 19 makes
  possible, seven for each photon: a free path that stays in the slab, a resampled
  direction of \<open>cosTheta = -5/3\<close> and \<open>sinTheta = NaN\<close>, a second free path that stays in the
  slab and carries the position to NaN, a second resampling, and a last free path. Beside
  them the photon after its first and after its second step, and the state after a million
  such photons.
\<close>

definition lost :: "nat \<Rightarrow> real" where
  "lost k = (if k mod 7 = 3 then 7/8 else if k mod 7 = 0 \<or> k mod 7 = 6 then 1/2 else 0)"

definition photon_turned :: photon where
  "photon_turned =
     \<lparr>px = Fin 0, py = Fin 0, pz = Fin (ln 2 / 3), mux = NaN, muy = NaN, muz = Fin (- (5/3)),
      weight = Fin (2/3)\<rparr>"

definition photon_lost :: photon where
  "photon_lost =
     \<lparr>px = NaN, py = NaN, pz = Fin (ln 2 / 3 + ln (7/8) * 5 / 9), mux = NaN, muy = NaN,
      muz = NaN, weight = Fin (1/3)\<rparr>"

definition sim_lost :: sim where
  "sim_lost = \<lparr>Rd = Fin (1000000 / 3), Tt = Fin 0, records = (\<lambda>_. Fin 0), rng = 7000000\<rparr>"


section \<open>Results\<close>

subsection \<open>GetCosTheta\<close>

lemma GetCosTheta_isotropic:
  "fst (GetCosTheta u k (Fin 0)) = PhaseFunctionSampler_spec (Fin 0) (Fin (u k))"
  by (simp add: GetCosTheta_def PhaseFunctionSampler_spec_def distr_def)

text \<open>
  For \<open>g \<noteq> 0\<close> the numerator of the source is \<open>1 * g\<^sup>2 - \<mu>\<^sup>2\<close>, not \<open>1 + g\<^sup>2 - \<mu>\<^sup>2\<close>: the
  value returned is the specified one shifted by \<open>- 1 / (2g)\<close>.
\<close>

lemma GetCosTheta_shift:
  assumes "g \<noteq> 0"
  shows "fst (GetCosTheta u k (Fin g))
         = PhaseFunctionSampler_spec (Fin g) (Fin (u k)) - Fin (1 / (2 * g))"
proof (cases "1 - g + 2 * g * u k = 0")
  case True
  with assms show ?thesis
    by (simp add: GetCosTheta_def PhaseFunctionSampler_spec_def distr_def minus_fl_def)
next
  case False
  with assms show ?thesis
    by (simp add: GetCosTheta_def PhaseFunctionSampler_spec_def distr_def minus_fl_def
        Let_def diff_divide_distrib add_divide_distrib)
qed

text \<open>
  C1. GetCosTheta, for \<open>g \<noteq> 0\<close>, is claimed to return \<open>(1 + g\<^sup>2 - \<mu>\<^sup>2) / (2g)\<close>. At
  \<open>g = 1/2\<close> and the deviate \<open>\<xi> = 1/2\<close> (so \<open>\<mu> = 3/4\<close>) the source returns
  \<open>(1/4 - 9/16) / 1 = -5/16\<close>, while the claimed formula gives \<open>(1 + 1/4 - 9/16) / 1 = 11/16\<close>.
\<close>

theorem GetCosTheta_numerator_at_half:
  "fst (GetCosTheta (\<lambda>_. 1/2) 0 (Fin (1/2))) = Fin (- 5/16)
   \<and> PhaseFunctionSampler_spec (Fin (1/2)) (Fin (1/2)) = Fin (11/16)"
  by (simp add: GetCosTheta_def PhaseFunctionSampler_spec_def distr_def minus_fl_def)

text \<open>
  C2. GetCosTheta is claimed to return a value of \<open>[-1, 1]\<close> for every \<open>g\<close> in \<open>(-1, 1)\<close> and
  every deviate in \<open>[0, 1)\<close>. At \<open>g = 1/2\<close> and \<open>\<xi> = 0\<close> it returns \<open>-2\<close>, and at the
  program's own \<open>g = 3/4\<close> and \<open>\<xi> = 0\<close> it returns \<open>-5/3\<close>.
\<close>

theorem GetCosTheta_out_of_range:
  "in_distr_range 0
   \<and> fst (GetCosTheta (\<lambda>_. 0) 0 (Fin (1/2))) = Fin (- 2)
   \<and> \<not> (Fin (- 1) \<le> fst (GetCosTheta (\<lambda>_. 0) 0 (Fin (1/2))))
   \<and> fst (GetCosTheta (\<lambda>_. 0) 0 (Fin (3/4))) = Fin (- 5/3)
   \<and> \<not> (Fin (- 1) \<le> fst (GetCosTheta (\<lambda>_. 0) 0 (Fin (3/4))))"
  by (simp add: GetCosTheta_def distr_def minus_fl_def in_distr_range_def distr_a_def
      distr_b_def)

subsection \<open>ScatterPhoton\<close>

lemma GetCosTheta_snd: "snd (GetCosTheta u k g) = Suc k"
  by (simp add: GetCosTheta_def distr_def Let_def)

lemma ScatterPhoton_snd: "snd (ScatterPhoton u k dir g) = Suc (Suc k)"
  by (cases "GetCosTheta u k g"; cases dir)
     (use GetCosTheta_snd [of u k g] in \<open>simp add: ScatterPhoton_def distr_def Let_def\<close>)

lemma rotate_identity:
  fixes S D Di C Sn c mx my mz :: real
  assumes "S * S = 1 - c * c" "D * D = 1 - mz * mz" "C * C + Sn * Sn = 1"
    "mx * mx + my * my + mz * mz = 1" "D * Di = 1"
  shows "(S * (mx * (mz * C) - my * Sn) * Di + mx * c) * (S * (mx * (mz * C) - my * Sn) * Di + mx * c)
       + (S * (my * (mz * C) + mx * Sn) * Di + my * c) * (S * (my * (mz * C) + mx * Sn) * Di + my * c)
       + (- D * S * C + mz * c) * (- D * S * C + mz * c) = 1"
  using assms by algebra

text \<open>
  The rotation itself keeps the norm: whenever GetCosTheta returns a value of \<open>[-1, 1]\<close>,
  ScatterPhoton maps a unit direction to a direction of norm exactly 1, in each of its
  three branches.
\<close>

lemma ScatterPhoton_unit_if_cos_in_range:
  assumes cs: "fst (GetCosTheta u k g) = Fin c" "- 1 \<le> c" "c \<le> 1"
    and unit: "mx * mx + my * my + mz * mz = 1"
  shows "norm3 (fst (ScatterPhoton u k (Fin mx, Fin my, Fin mz) g)) = Fin 1"
proof -
  define S where "S = sqrt (1 - c * c)"
  define C where "C = cos (2 * PI * u (Suc k))"
  define Sn where "Sn = sin (2 * PI * u (Suc k))"
  define D where "D = sqrt (1 - mz * mz)"
  have g: "GetCosTheta u k g = (Fin c, Suc k)"
    using cs(1) GetCosTheta_snd [of u k g] by (cases "GetCosTheta u k g") simp
  have "0 \<le> (1 - c) * (1 + c)"
    using cs(2,3) by (intro mult_nonneg_nonneg) simp_all
  then have "c * c \<le> 1" by (simp add: algebra_simps)
  then have S2: "S * S = 1 - c * c" and Snn: "\<not> 1 - c * c < 0" by (simp_all add: S_def)
  have CS: "C * C + Sn * Sn = 1"
    unfolding C_def Sn_def by (metis power2_eq_square sin_cos_squared_add2 add.commute)
  have mz2: "mz * mz \<le> 1"
    using unit zero_le_square [of mx] zero_le_square [of my] by linarith
  then have D2: "D * D = 1 - mz * mz" and Dnn: "\<not> 1 - mz * mz < 0" by (simp_all add: D_def)
  have sT: "fsqrt (Fin 1 - Fin c * Fin c) = Fin S"
    using Snn by (simp add: minus_fl_def S_def)
  show ?thesis
  proof (cases "mz = 1 \<or> mz = - 1")
    case True
    have "S * C * (S * C) + S * Sn * (S * Sn) + c * c = 1"
      using S2 CS by algebra
    then show ?thesis using True sT
      by (auto simp add: ScatterPhoton_def g distr_def norm3_def C_def Sn_def Let_def mult.assoc)
  next
    case False
    then have "mz * mz \<noteq> 1" by (simp add: square_eq_1_iff)
    with mz2 D2 have "D \<noteq> 0" by auto
    then have Di: "D * (1 / D) = 1" by simp
    have dn: "fsqrt (Fin 1 - Fin mz * Fin mz) = Fin D"
      using Dnn by (simp add: minus_fl_def D_def)
    note id = rotate_identity [OF S2 D2 CS unit Di]
    show ?thesis using False sT dn \<open>D \<noteq> 0\<close> id
      by (simp add: ScatterPhoton_def g distr_def norm3_def C_def Sn_def Let_def minus_fl_def)
  qed
qed

text \<open>
  C3. ScatterPhoton is claimed to return a direction of norm \<open>1 \<plusminus> 10\<^sup>-\<^sup>4\<close> for every unit
  direction and every \<open>g\<close> in \<open>(-1, 1)\<close>. From the unit direction \<open>(0, 0, 1)\<close>, the one every
  photon starts with, \<open>g = 1/2\<close> and the deviates \<open>0, 0\<close>: GetCosTheta returns \<open>-2\<close>,
  \<open>sinTheta = sqrt (1 - 4)\<close> is NaN, \<open>phi = 0\<close>, and the first branch returns
  \<open>(NaN, NaN, -2)\<close>. With the program's \<open>g = 3/4\<close> it returns \<open>(NaN, NaN, -5/3)\<close>.
\<close>

theorem ScatterPhoton_not_unit:
  "unit_within_tolerance (Fin 0, Fin 0, Fin 1)
   \<and> fst (ScatterPhoton (\<lambda>_. 0) 0 (Fin 0, Fin 0, Fin 1) (Fin (1/2))) = (NaN, NaN, Fin (- 2))
   \<and> \<not> unit_within_tolerance (fst (ScatterPhoton (\<lambda>_. 0) 0 (Fin 0, Fin 0, Fin 1) (Fin (1/2))))
   \<and> fst (ScatterPhoton (\<lambda>_. 0) 0 (Fin 0, Fin 0, Fin 1) (Fin (3/4))) = (NaN, NaN, Fin (- 5/3))
   \<and> \<not> unit_within_tolerance (fst (ScatterPhoton (\<lambda>_. 0) 0 (Fin 0, Fin 0, Fin 1) (Fin (3/4))))"
  by (simp add: ScatterPhoton_def GetCosTheta_def distr_def minus_fl_def
      unit_within_tolerance_def norm3_def)

subsection \<open>One step of a photon\<close>

lemma sigma_t_val: "sigma_t = Fin 3"
  by (simp add: sigma_t_def sigma_a_def sigma_s_def)

lemma free_path_Fin:
  "free_path (Fin v) = (if v < 0 then NaN else if v = 0 then PInf else Fin (- ln v / 3))"
  by (simp add: free_path_def sigma_t_val)

lemma absorb_Fin: "absorb (Fin w) = Fin (max 0 (w - 1/3))"
  by (simp add: absorb_def sigma_t_val sigma_a_def std_max_def minus_fl_def max_def)

lemma ln_half: "\<not> (1/2 < - ln (1/2 :: real) / 3)"
proof -
  have "- ln (1/2 :: real) = ln 2" by (simp add: ln_div)
  with ln_2_less_1 show ?thesis by simp
qed

lemma ln_eighth: "1/4 < - ln (1/8 :: real) / 3"
proof -
  have "ln (1/8 :: real) \<le> 1/8 - 1" by (rule ln_le_minus_one) simp
  then show ?thesis by simp
qed

text \<open>
  With \<open>mu_z = 0\<close> neither assignment of lines 78 and 79 runs and \<open>dist\<close> keeps its initial
  value 0, which every free path exceeds: the test of line 82 succeeds for every deviate.
\<close>

lemma muz_zero_passes_exit_test:
  assumes "muz p = Fin 0" "in_distr_range v"
  shows "boundary_dist p = Fin 0 \<and> boundary_dist p < free_path (Fin v)"
  using assms
  by (simp add: boundary_dist_def free_path_Fin in_distr_range_def distr_a_def distr_b_def)

text \<open>
  Such a step is reached from the initial photon, in the middle of the slab: on the
  deviates \<open>sideways\<close> the first scattering turns the photon to \<open>(1, 0, 0)\<close> at depth
  \<open>ln 2 / 3\<close>, and the next iteration counts it, with its weight \<open>2/3\<close>, as having left
  through the entry face.
\<close>

lemma sideways_in_range: "in_distr_range (sideways k)"
  by (simp add: sideways_def in_distr_range_def distr_a_def distr_b_def)

lemma sideways_scatter:
  "ScatterPhoton sideways (Suc 0) (Fin 0, Fin 0, Fin 1) slab_g = ((Fin 1, Fin 0, Fin 0), 3)"
  by (simp add: ScatterPhoton_def GetCosTheta_def distr_def sideways_def slab_g_def minus_fl_def
      Let_def eval_nat_numeral)

lemma ln_half_eq: "ln (1/2 :: real) = - ln 2"
  by (simp add: ln_div)

lemma sideways_body1:
  "body c sideways 512 (init_photon, sim0) = Continue (photon_sideways, sim0\<lparr>rng := 3\<rparr>)"
  using ln_2_less_1
  by (simp add: body_def distr_def free_path_Fin boundary_dist_def init_photon_def slab_d_def
      minus_fl_def absorb_Fin scatter_def sideways_scatter sim0_def sideways_def ln_half_eq
      photon_sideways_def)

lemma sideways_body2:
  "body c sideways 512 (photon_sideways, sim0\<lparr>rng := 3\<rparr>)
   = Break (photon_sideways, sim0\<lparr>Rd := Fin (2/3), rng := 4\<rparr>)"
  by (simp add: body_def distr_def free_path_Fin boundary_dist_def record_exit_def cell_of_def
      guard_def slabSize_def sim0_def sideways_def photon_sideways_def ln_half_eq)

lemma sideways_loop:
  "photon_loop c sideways 512 (init_photon, sim0)
   = Some (Inr (photon_sideways, sim0\<lparr>Rd := Fin (2/3), rng := 4\<rparr>))"
proof -
  have "photon_loop c sideways 512 (init_photon, sim0)
        = photon_loop c sideways 512 (photon_sideways, sim0\<lparr>rng := 3\<rparr>)"
    by (subst photon_loop.simps) (simp add: sideways_body1 init_photon_def [THEN arg_cong, of weight])
  also have "\<dots> = Some (Inr (photon_sideways, sim0\<lparr>Rd := Fin (2/3), rng := 4\<rparr>))"
    by (subst photon_loop.simps)
       (simp add: sideways_body2 photon_sideways_def [THEN arg_cong, of weight])
  finally show ?thesis .
qed

text \<open>
  C4. With \<open>mu_z = 0\<close> the boundary distance is claimed to be infinite, so that the photon
  cannot exit on that step and adds nothing to \<open>Rd\<close>. A photon of weight 1 in the middle
  of the slab, at \<open>(0, 0, 1/4)\<close>, that travels along \<open>(1, 0, 0)\<close> and draws the deviate
  \<open>1/2\<close>: \<open>dist = 0\<close>, the free path \<open>ln 2 / 3\<close> exceeds it, line 84 adds the weight to
  \<open>Rd\<close>, and the walk ends at line 92.
\<close>

theorem muz_zero_exits_to_Rd:
  "boundary_dist \<lparr>px = Fin 0, py = Fin 0, pz = Fin (1/4), mux = Fin 1, muy = Fin 0,
                  muz = Fin 0, weight = Fin 1\<rparr> = Fin 0
   \<and> body c (\<lambda>_. 1/2) 512
       (\<lparr>px = Fin 0, py = Fin 0, pz = Fin (1/4), mux = Fin 1, muy = Fin 0, muz = Fin 0,
         weight = Fin 1\<rparr>, sim0)
     = Break (\<lparr>px = Fin 0, py = Fin 0, pz = Fin (1/4), mux = Fin 1, muy = Fin 0,
               muz = Fin 0, weight = Fin 1\<rparr>, sim0\<lparr>Rd := Fin 1, rng := 1\<rparr>)"
  by (simp add: body_def distr_def free_path_Fin boundary_dist_def record_exit_def cell_of_def
      guard_def slabSize_def sim0_def)

text \<open>
  What lines 83 to 90 do with the sums: the weight goes to \<open>Tt\<close> when \<open>mu_z > 0\<close> and to
  \<open>Rd\<close> otherwise, whatever the cell.
\<close>

lemma record_exit_sums:
  assumes "record_exit c sz p st = Inr st'"
  shows "if Fin 0 < muz p then Tt st' = Tt st + weight p \<and> Rd st' = Rd st
         else Rd st' = Rd st + weight p \<and> Tt st' = Tt st"
  using assms
  by (auto simp add: record_exit_def Let_def split: if_splits option.splits)

text \<open>
  C5. The weight of an exiting photon is claimed to enter the grid exactly when
  \<open>mu_z > 0\<close> and the cell \<open>(xi, yi)\<close> lies within the grid. A photon of weight 1 at
  \<open>(3/2, 0, 1/4)\<close> that travels along \<open>(0, 0, 1)\<close> and draws the deviate \<open>1/8\<close> exits
  through the far face. Its cell is \<open>xi = 640\<close>, \<open>yi = 256\<close>, outside a grid of size 512,
  but line 88 tests \<^verbatim>\<open>x < size\<close>, that is \<open>3/2 < 512\<close>, and line 89 adds the weight at the
  index \<open>256 * 512 + 640 = 131712\<close>, which is row 257, column 128.
\<close>

theorem exit_outside_grid_is_recorded:
  "cell_of c 512 (Fin (3/2)) = Some 640 \<and> cell_of c 512 (Fin 0) = Some 256
   \<and> \<not> (640 < int 512)
   \<and> index_of 512 640 256 = 131712 \<and> index_of 512 128 257 = 131712
   \<and> body c (\<lambda>_. 1/8) 512
       (\<lparr>px = Fin (3/2), py = Fin 0, pz = Fin (1/4), mux = Fin 0, muy = Fin 0, muz = Fin 1,
         weight = Fin 1\<rparr>, sim0)
     = Break (\<lparr>px = Fin (3/2), py = Fin 0, pz = Fin (1/4), mux = Fin 0, muy = Fin 0,
               muz = Fin 1, weight = Fin 1\<rparr>,
              sim0\<lparr>Tt := Fin 1, records := (\<lambda>_. Fin 0)(131712 := Fin 1), rng := 1\<rparr>)"
  using ln_eighth
  by (simp add: body_def distr_def free_path_Fin boundary_dist_def record_exit_def cell_of_def
      guard_def slabSize_def sim0_def slab_d_def minus_fl_def index_of_def)

text \<open>
  C6. Whenever line 89 writes, \<open>0 \<le> xi < size\<close> and \<open>0 \<le> yi < size\<close> are claimed, and so an
  index below \<open>size * size\<close>. A photon of weight 1 at \<open>(3/2, 511/512, 1/4)\<close> that travels
  along \<open>(0, 0, 1)\<close> and draws the deviate \<open>1/8\<close> exits through the far face; with size 512
  the guard of line 88 holds with \<open>xi = 640\<close> and \<open>yi = 511\<close>, and the index written is
  \<open>511 * 512 + 640 = 262272\<close>, beyond \<open>512 * 512 = 262144\<close>.
\<close>

theorem guard_admits_index_beyond_grid:
  "cell_of c 512 (Fin (3/2)) = Some 640 \<and> cell_of c 512 (Fin (511/512)) = Some 511
   \<and> guard 512 \<lparr>px = Fin (3/2), py = Fin (511/512), pz = Fin (1/4), mux = Fin 0, muy = Fin 0,
                 muz = Fin 1, weight = Fin 1\<rparr> 640 511
   \<and> \<not> (640 < int 512)
   \<and> index_of 512 640 511 = 262272 \<and> \<not> (262272 < (512::nat) * 512)
   \<and> body c (\<lambda>_. 1/8) 512
       (\<lparr>px = Fin (3/2), py = Fin (511/512), pz = Fin (1/4), mux = Fin 0, muy = Fin 0,
         muz = Fin 1, weight = Fin 1\<rparr>, sim0)
     = Break (\<lparr>px = Fin (3/2), py = Fin (511/512), pz = Fin (1/4), mux = Fin 0, muy = Fin 0,
               muz = Fin 1, weight = Fin 1\<rparr>,
              sim0\<lparr>Tt := Fin 1, records := (\<lambda>_. Fin 0)(262272 := Fin 1), rng := 1\<rparr>)"
  using ln_eighth
  by (simp add: body_def distr_def free_path_Fin boundary_dist_def record_exit_def cell_of_def
      guard_def slabSize_def sim0_def slab_d_def minus_fl_def index_of_def)

text \<open>
  C8. The deviate of line 74 is claimed to come from \<open>(0, 1)\<close>, without 0, so that the free
  path is finite. The distribution of line 11 is over \<open>[0, 1)\<close>: 0 is one of its values,
  and the free path of the deviate 0 is \<open>- log 0 / sigma_t = +inf\<close>.
\<close>

theorem free_path_infinite_at_zero:
  "in_distr_range 0 \<and> free_path (Fin 0) = PInf"
  by (simp add: in_distr_range_def distr_a_def distr_b_def free_path_Fin)

text \<open>The test of line 82 is made on the free path of the deviate as it was drawn.\<close>

lemma body_exit:
  assumes "boundary_dist p < free_path (Fin (u (rng st)))"
  shows "body c u sz (p, st)
         = (case record_exit c sz p (st\<lparr>rng := Suc (rng st)\<rparr>) of
              Inl e \<Rightarrow> Fault e | Inr st' \<Rightarrow> Break (p, st'))"
  using assms by (simp add: body_def distr_def)

text \<open>
  C8, as the code has it. The deviate comes from \<open>[0, 1)\<close>. For every deviate other than 0
  the free path is finite and positive; for the deviate 0 it is \<open>+inf\<close>, which exceeds every
  finite boundary distance, so that a photon whose boundary distance is finite exits on
  that step: the body runs lines 83 to 92 and does not continue.
\<close>

theorem free_path_of_deviate:
  assumes "in_distr_range (u (rng st))"
  shows "(u (rng st) \<noteq> 0 \<longrightarrow> (\<exists>s. free_path (Fin (u (rng st))) = Fin s \<and> 0 < s))
       \<and> (u (rng st) = 0 \<longrightarrow>
            free_path (Fin (u (rng st))) = PInf
            \<and> (\<forall>dist. Fin dist < free_path (Fin (u (rng st))))
            \<and> (\<forall>dist. boundary_dist p = Fin dist \<longrightarrow>
                  body c u sz (p, st)
                  = (case record_exit c sz p (st\<lparr>rng := Suc (rng st)\<rparr>) of
                       Inl e \<Rightarrow> Fault e | Inr st' \<Rightarrow> Break (p, st'))
                  \<and> (\<forall>ps'. body c u sz (p, st) \<noteq> Continue ps')))
       \<and> (boundary_dist p < free_path (Fin (u (rng st))) \<longrightarrow>
            body c u sz (p, st)
            = (case record_exit c sz p (st\<lparr>rng := Suc (rng st)\<rparr>) of
                 Inl e \<Rightarrow> Fault e | Inr st' \<Rightarrow> Break (p, st')))"
proof (intro conjI impI allI)
  assume "u (rng st) \<noteq> 0"
  with assms show "\<exists>s. free_path (Fin (u (rng st))) = Fin s \<and> 0 < s"
    by (auto simp add: in_distr_range_def distr_a_def distr_b_def free_path_Fin)
next
  assume z: "u (rng st) = 0"
  then show inf: "free_path (Fin (u (rng st))) = PInf" by (simp add: free_path_Fin)
  then show "Fin dist < free_path (Fin (u (rng st)))" for dist by simp
  fix dist assume "boundary_dist p = Fin dist"
  with inf have lt: "boundary_dist p < free_path (Fin (u (rng st)))" by simp
  from body_exit [of p u st c sz, OF lt] show e: "body c u sz (p, st)
         = (case record_exit c sz p (st\<lparr>rng := Suc (rng st)\<rparr>) of
              Inl e \<Rightarrow> Fault e | Inr st' \<Rightarrow> Break (p, st'))" .
  show "body c u sz (p, st) \<noteq> Continue ps'" for ps'
    unfolding e by (simp split: sum.splits)
next
  assume "boundary_dist p < free_path (Fin (u (rng st)))"
  then show "body c u sz (p, st)
         = (case record_exit c sz p (st\<lparr>rng := Suc (rng st)\<rparr>) of
              Inl e \<Rightarrow> Fault e | Inr st' \<Rightarrow> Break (p, st'))"
    by (rule body_exit [of p u st c sz])
qed

theorem free_path_of_deviate_witness:
  "in_distr_range 0 \<and> free_path (Fin 0) = PInf
   \<and> boundary_dist init_photon = Fin (1/2)
   \<and> body cvt_none (\<lambda>_. 0) 512 (init_photon, sim0)
     = Break (init_photon,
         sim0\<lparr>Tt := Fin 1, records := (\<lambda>_. Fin 0)(131328 := Fin 1), rng := 1\<rparr>)
   \<and> in_distr_range (1/2) \<and> (\<exists>s. free_path (Fin (1/2)) = Fin s \<and> 0 < s)"
proof -
  have h0: "in_distr_range ((\<lambda>_. 0) (rng sim0))" and h1: "in_distr_range ((\<lambda>_. 1/2) (rng sim0))"
    by (simp_all add: in_distr_range_def distr_a_def distr_b_def)
  have d: "boundary_dist init_photon = Fin (1/2)"
    by (simp add: boundary_dist_def init_photon_def slab_d_def minus_fl_def)
  have r: "record_exit cvt_none 512 init_photon (sim0\<lparr>rng := Suc (rng sim0)\<rparr>)
           = Inr (sim0\<lparr>Tt := Fin 1, records := (\<lambda>_. Fin 0)(131328 := Fin 1), rng := 1\<rparr>)"
    by (simp add: record_exit_def cell_of_def guard_def slabSize_def sim0_def index_of_def
        init_photon_def)
  from free_path_of_deviate [where u = "\<lambda>_. 0" and st = sim0 and p = init_photon
      and c = cvt_none and sz = 512, OF h0]
    free_path_of_deviate [where u = "\<lambda>_. 1/2" and st = sim0 and p = init_photon
      and c = cvt_none and sz = 512, OF h1] h0 h1 d r
  show ?thesis by simp
qed


subsection \<open>The weight along a walk\<close>

lemma scatter_keeps:
  "scatter u p st = (p', st') \<Longrightarrow>
     weight p' = weight p \<and> px p' = px p \<and> py p' = py p \<and> pz p' = pz p
     \<and> Rd st' = Rd st \<and> Tt st' = Tt st \<and> records st' = records st"
  by (auto simp add: scatter_def split: prod.splits)

lemma scatter_rng: "scatter u p st = (p', st') \<Longrightarrow> rng st' = Suc (Suc (rng st))"
  using ScatterPhoton_snd [of u "rng st" "(mux p, muy p, muz p)" slab_g]
  by (auto simp add: scatter_def split: prod.splits)

lemma body_Continue:
  assumes "body c u sz (p, st) = Continue (p', st')"
  shows "weight p' = (if absorb (weight p) < Fin (1/1000) then absorb (weight p) * roulette_m
                      else absorb (weight p))
         \<and> Rd st' = Rd st \<and> Tt st' = Tt st \<and> records st' = records st"
  using assms
  by (auto simp add: body_def distr_def Let_def
      split: if_splits sum.splits prod.splits dest!: scatter_keeps)

lemma body_Continue_weight:
  assumes "body c u sz (p, st) = Continue (p', st')" "weight p = Fin w" "0 \<le> w"
    "w \<le> real (Suc n) / 3"
  shows "\<exists>w'. weight p' = Fin w' \<and> 0 \<le> w' \<and> w' \<le> real n / 3 \<and> w' \<le> max w (1/100)"
proof -
  have a: "absorb (weight p) = Fin (max 0 (w - 1/3))"
    using assms(2) by (simp add: absorb_Fin)
  have lt: "absorb (weight p) < Fin (1/1000) \<longleftrightarrow> max 0 (w - 1/3) < 1/1000"
    unfolding a by (rule less_fl.simps(1))
  show ?thesis
  proof (cases "max 0 (w - 1/3) < 1/1000")
    case True
    with lt have "absorb (weight p) < Fin (1/1000)"
      by blast
    with body_Continue [OF assms(1)] have "weight p' = absorb (weight p) * roulette_m"
      by presburger
    then have "weight p' = Fin (max 0 (w - 1/3) * 10)"
      unfolding a by (simp add: roulette_m_def)
    moreover have "max 0 (w - 1/3) * 10 \<le> real n / 3"
    proof (cases "w \<le> 1/3")
      case True
      then show ?thesis by (simp add: max_def)
    next
      case False
      with assms(4) have "1 \<le> real n" by (cases n) auto
      with True show ?thesis by (simp add: max_def split: if_splits)
    qed
    moreover have "max 0 (w - 1/3) * 10 \<le> max w (1/100)"
      using True by (simp add: max_def split: if_splits)
    ultimately show ?thesis by (simp add: max_def)
  next
    case False
    with lt have "\<not> absorb (weight p) < Fin (1/1000)"
      by blast
    with body_Continue [OF assms(1)] have "weight p' = absorb (weight p)"
      by presburger
    then have "weight p' = Fin (max 0 (w - 1/3))"
      unfolding a .
    then show ?thesis using assms(3,4) by (auto simp add: max_def field_simps)
  qed
qed

lemma record_exit_tally:
  assumes "record_exit c sz p st = Inr st'" "weight p = Fin w" "Rd st = Fin r" "Tt st = Fin t"
  shows "\<exists>r' t'. Rd st' = Fin r' \<and> Tt st' = Fin t' \<and> r' + t' = r + t + w"
  using assms
  by (auto simp add: record_exit_def Let_def split: if_splits option.splits)

lemma body_Break:
  assumes "body c u sz (p, st) = Break (p', st')" "weight p = Fin w" "0 \<le> w" "Rd st = Fin r" "Tt st = Fin t"
  shows "\<exists>r' t'. Rd st' = Fin r' \<and> Tt st' = Fin t' \<and> r' + t' \<le> r + t + w"
  using assms
  by (auto simp add: body_def distr_def Let_def absorb_Fin 
      split: if_splits sum.splits prod.splits dest!: record_exit_tally)

lemma walk_weight:
  "ps \<in> walk c u sz st0 \<Longrightarrow> \<exists>w. weight (fst ps) = Fin w \<and> 0 \<le> w \<and> w \<le> 1"
proof (induction rule: walk.induct)
  case walk_init
  show ?case by (simp add: init_photon_def)
next
  case (walk_step ps ps')
  obtain p st where ps: "ps = (p, st)" by (cases ps)
  obtain p' st' where ps': "ps' = (p', st')" by (cases ps')
  from walk_step.IH ps obtain w where w: "weight p = Fin w" "0 \<le> w" "w \<le> 1" by auto
  from w(3) have "w \<le> real (Suc 2) / 3" by simp
  from body_Continue_weight [OF walk_step.hyps(3) [unfolded ps ps'] w(1,2) this]
  obtain w' where "weight p' = Fin w'" "0 \<le> w'" "w' \<le> max w (1/100)" by blast
  with w(3) ps' show ?case by auto
qed

text \<open>
  C9. The weight of a photon is never negative: at the head of every iteration of its
  walk, after the clamp of line 103, and after the boost of line 108.
\<close>

theorem weight_never_negative:
  assumes "ps \<in> walk c u sz st0"
  shows "Fin 0 \<le> weight (fst ps) \<and> Fin 0 \<le> absorb (weight (fst ps))
         \<and> Fin 0 \<le> absorb (weight (fst ps)) * roulette_m"
proof -
  from walk_weight [OF assms] obtain w where "weight (fst ps) = Fin w" "0 \<le> w" by blast
  then show ?thesis by (simp add: absorb_Fin roulette_m_def)
qed

lemma first_step:
  "\<exists>p st. body cvt_none (\<lambda>_. 1/2) 512 (init_photon, sim0) = Continue (p, st) \<and> weight p = Fin (2/3)"
  using ln_half
  by (simp add: body_def distr_def free_path_Fin boundary_dist_def init_photon_def slab_d_def
      minus_fl_def absorb_Fin scatter_def split: prod.splits)

theorem weight_never_negative_witness:
  "\<exists>ps. ps \<in> walk cvt_none (\<lambda>_. 1/2) 512 sim0 \<and> weight (fst ps) = Fin (2/3)
        \<and> Fin 0 \<le> weight (fst ps) \<and> Fin 0 \<le> absorb (weight (fst ps))
        \<and> Fin 0 \<le> absorb (weight (fst ps)) * roulette_m"
proof -
  from first_step obtain p st where
    b: "body cvt_none (\<lambda>_. 1/2) 512 (init_photon, sim0) = Continue (p, st)" and w: "weight p = Fin (2/3)"
    by blast
  have "(p, st) \<in> walk cvt_none (\<lambda>_. 1/2) 512 sim0"
    by (rule walk_step [OF walk_init _ b]) (simp add: init_photon_def)
  with weight_never_negative [OF this] w show ?thesis by auto
qed


subsection \<open>The sums of a pass\<close>

lemma to_int_total: "yields_always c \<Longrightarrow> \<exists>i. to_int c f = Some i"
  by (cases f) (auto simp add: Let_def yields_always_def)

lemma record_exit_total:
  assumes "yields_always c"
  shows "\<exists>st'. record_exit c sz p st = Inr st'"
proof -
  from to_int_total [OF assms] obtain xi where "cell_of c sz (px p) = Some xi"
    unfolding cell_of_def by blast
  moreover from to_int_total [OF assms] obtain yi where "cell_of c sz (py p) = Some yi"
    unfolding cell_of_def by blast
  ultimately show ?thesis by (simp add: record_exit_def Let_def)
qed

lemma body_no_fault:
  assumes "yields_always c"
  shows "body c u sz ps \<noteq> Fault e"
proof -
  obtain p st where ps: "ps = (p, st)" by (cases ps)
  from record_exit_total [OF assms]
  obtain st' where "record_exit c sz p (st\<lparr>rng := Suc (rng st)\<rparr>) = Inr st'" by blast
  then show ?thesis
    by (simp add: body_def ps distr_def Let_def)
qed

lemma loop_done: "weight p = Fin 0 \<Longrightarrow> photon_loop c u sz (p, st) = Some (Inr (p, st))"
  by (subst photon_loop.simps) simp

lemma loop_total:
  "weight p = Fin w \<Longrightarrow> 0 \<le> w \<Longrightarrow> w \<le> real n / 3 \<Longrightarrow> w \<le> 1 \<Longrightarrow> tally_ok b st \<Longrightarrow>
   \<exists>res. photon_loop c u sz (p, st) = Some res
         \<and> (\<forall>p' st'. res = Inr (p', st') \<longrightarrow> tally_ok (b + 1) st')
         \<and> (yields_always c \<longrightarrow> (\<exists>r. res = Inr r))"
proof (induction n arbitrary: p st w)
  case 0
  then have "weight p = Fin 0" by simp
  then have "photon_loop c u sz (p, st) = Some (Inr (p, st))" by (rule loop_done)
  with "0.prems"(5) show ?case by (auto simp add: tally_ok_def)
next
  case (Suc n)
  show ?case
  proof (cases "w = 0")
    case True
    with Suc.prems(1) have "photon_loop c u sz (p, st) = Some (Inr (p, st))"
      by (simp add: loop_done)
    with Suc.prems(5) show ?thesis by (auto simp add: tally_ok_def)
  next
    case False
    with Suc.prems(1) have unf: "photon_loop c u sz (p, st) =
        (case body c u sz (p, st) of Break r \<Rightarrow> Some (Inr r) | Fault e \<Rightarrow> Some (Inl e)
         | Continue ps' \<Rightarrow> photon_loop c u sz ps')"
      by (subst photon_loop.simps) simp
    show ?thesis
    proof (cases "body c u sz (p, st)")
      case (Break r)
      obtain p' st' where r: "r = (p', st')" by (cases r)
      from Suc.prems(5) obtain a d where ac: "Rd st = Fin a" "Tt st = Fin d" "a + d \<le> b"
        by (auto simp add: tally_ok_def)
      from body_Break [OF Break [unfolded r] Suc.prems(1,2) ac(1,2)]
      have "tally_ok (b + 1) st'" using ac(3) Suc.prems(4) by (auto simp add: tally_ok_def)
      with unf Break r show ?thesis by simp
    next
      case (Fault e)
      with unf body_no_fault [of c u sz "(p, st)" e] show ?thesis by auto
    next
      case (Continue ps')
      obtain p' st' where ps': "ps' = (p', st')" by (cases ps')
      from body_Continue_weight [OF Continue [unfolded ps'] Suc.prems(1,2,3)]
      obtain w' where w': "weight p' = Fin w'" "0 \<le> w'" "w' \<le> real n / 3" "w' \<le> max w (1/100)"
        by blast
      from body_Continue [OF Continue [unfolded ps']] Suc.prems(5)
      have t: "tally_ok b st'" by (simp add: tally_ok_def)
      from w'(4) Suc.prems(4) have "w' \<le> 1" by simp
      from Suc.IH [OF w'(1,2,3) this t] unf Continue ps' show ?thesis by simp
    qed
  qed
qed

lemma photons_total:
  "tally_ok b st \<Longrightarrow>
   \<exists>res. photons n c u sz st = Some res
         \<and> (\<forall>st'. res = Inr st' \<longrightarrow> tally_ok (b + real n) st')
         \<and> (yields_always c \<longrightarrow> (\<exists>st'. res = Inr st'))"
proof (induction n arbitrary: b st)
  case 0
  then show ?case by simp
next
  case (Suc n)
  have "weight init_photon = Fin 1" by (simp add: init_photon_def)
  from loop_total [OF this _ _ _ Suc.prems, where n = 3 and c = c and u = u and sz = sz]
  obtain res where res: "photon_loop c u sz (init_photon, st) = Some res"
    "\<forall>p' st'. res = Inr (p', st') \<longrightarrow> tally_ok (b + 1) st'"
    "yields_always c \<longrightarrow> (\<exists>r. res = Inr r)" by auto
  show ?case
  proof (cases res)
    case (Inl e)
    with res show ?thesis by auto
  next
    case (Inr r)
    obtain p' st' where r: "r = (p', st')" by (cases r)
    with res Inr have "tally_ok (b + 1) st'" by simp
    from Suc.IH [OF this] res(1) Inr r show ?thesis by (simp add: algebra_simps)
  qed
qed

lemma MCSimulation_total:
  "\<exists>res. MCSimulation c u sz recs k = Some res
         \<and> (\<forall>st. res = Inr st \<longrightarrow> tally_ok (real nrPhotons) st)
         \<and> (yields_always c \<longrightarrow> (\<exists>st. res = Inr st))"
proof -
  have "tally_ok 0 \<lparr>Rd = Fin 0, Tt = Fin 0, records = recs, rng = k\<rparr>"
    by (simp add: tally_ok_def)
  from photons_total [OF this, where n = nrPhotons and c = c and u = u and sz = sz] show ?thesis
    by (simp add: MCSimulation_def)
qed

text \<open>
  A pass on the deviates \<open>lost\<close>, where the implementation yields \<open>-2\<^sup>3\<^sup>1\<close> for the
  conversions of NaN: every photon is moved twice, absorbed twice, scattered twice, and
  then counted in \<open>Rd\<close> with the weight \<open>1/3\<close>.
\<close>

lemma lost_in_range: "in_distr_range (lost k)"
  by (simp add: lost_def in_distr_range_def distr_a_def distr_b_def)

lemma lost_vals:
  "lost (7 * j) = 1/2"
  "lost (Suc (7 * j)) = 0"
  "lost (Suc (Suc (7 * j))) = 0"
  "lost (Suc (Suc (Suc (7 * j)))) = 7/8"
  "lost (Suc (Suc (Suc (Suc (7 * j))))) = 0"
  "lost (Suc (Suc (Suc (Suc (Suc (7 * j)))))) = 0"
  "lost (Suc (Suc (Suc (Suc (Suc (Suc (7 * j))))))) = 1/2"
proof -
  have m: "(7 * j) mod 7 = 0" "Suc (7 * j) mod 7 = 1" "Suc (Suc (7 * j)) mod 7 = 2"
    "Suc (Suc (Suc (7 * j))) mod 7 = 3" "Suc (Suc (Suc (Suc (7 * j)))) mod 7 = 4"
    "Suc (Suc (Suc (Suc (Suc (7 * j))))) mod 7 = 5"
    "Suc (Suc (Suc (Suc (Suc (Suc (7 * j)))))) mod 7 = 6"
    by presburger+
  show "lost (7 * j) = 1/2"
  "lost (Suc (7 * j)) = 0"
  "lost (Suc (Suc (7 * j))) = 0"
  "lost (Suc (Suc (Suc (7 * j)))) = 7/8"
  "lost (Suc (Suc (Suc (Suc (7 * j))))) = 0"
  "lost (Suc (Suc (Suc (Suc (Suc (7 * j)))))) = 0"
  "lost (Suc (Suc (Suc (Suc (Suc (Suc (7 * j))))))) = 1/2"
    unfolding lost_def m by simp_all
qed

lemma ln2_ge_half: "1/2 \<le> ln (2::real)"
proof -
  have "ln (1/2 :: real) \<le> 1/2 - 1" by (rule ln_le_minus_one) simp
  then show ?thesis by (simp add: ln_half_eq)
qed

lemma ln_seven_eighths: "- ln (7/8 :: real) \<le> 1/7"
proof -
  have "ln (8/7 :: real) \<le> 8/7 - 1" by (rule ln_le_minus_one) simp
  moreover have "ln (8/7 :: real) = - ln (7/8)" by (simp add: ln_div)
  ultimately show ?thesis by simp
qed

lemma turn_scatter:
  assumes "u k = 0" "u (Suc k) = 0"
  shows "ScatterPhoton u k (Fin 0, Fin 0, Fin 1) slab_g
         = ((NaN, NaN, Fin (- (5/3))), Suc (Suc k))"
  using assms
  by (simp add: ScatterPhoton_def GetCosTheta_def distr_def slab_g_def minus_fl_def Let_def)

lemma lose_scatter:
  assumes "u k = 0" "u (Suc k) = 0"
  shows "ScatterPhoton u k (NaN, NaN, Fin (- (5/3))) slab_g = ((NaN, NaN, NaN), Suc (Suc k))"
  using assms
  by (simp add: ScatterPhoton_def GetCosTheta_def distr_def slab_g_def minus_fl_def Let_def)

lemma turn_body:
  assumes "u k = 1/2" "u (Suc k) = 0" "u (Suc (Suc k)) = 0"
  shows "body c u sz (init_photon, st\<lparr>rng := k\<rparr>)
         = Continue (photon_turned, st\<lparr>rng := Suc (Suc (Suc k))\<rparr>)"
  using ln_2_less_1
  by (simp add: body_def distr_def free_path_Fin boundary_dist_def init_photon_def slab_d_def
      minus_fl_def absorb_Fin scatter_def turn_scatter [of u "Suc k", OF assms(2,3)]
      ln_half_eq photon_turned_def assms(1) Let_def)

lemma lose_body:
  assumes "u k = 7/8" "u (Suc k) = 0" "u (Suc (Suc k)) = 0"
  shows "body c u sz (photon_turned, st\<lparr>rng := k\<rparr>)
         = Continue (photon_lost, st\<lparr>rng := Suc (Suc (Suc k))\<rparr>)"
proof -
  have "\<not> (ln 2 / 5 < - ln (7/8 :: real) / 3)"
    using ln2_ge_half ln_seven_eighths by simp
  then show ?thesis
    by (simp add: body_def distr_def free_path_Fin boundary_dist_def photon_turned_def
      minus_fl_def absorb_Fin scatter_def lose_scatter [of u "Suc k", OF assms(2,3)]
      photon_lost_def assms(1) Let_def)
qed

lemma exit_body:
  assumes "u k = 1/2"
  shows "body cvt_x86 u sz (photon_lost, st\<lparr>rng := k\<rparr>)
         = Break (photon_lost, st\<lparr>Rd := Rd st + Fin (1/3), rng := Suc k\<rparr>)"
  using ln_gt_zero [of "2::real"]
  by (simp add: body_def distr_def free_path_Fin boundary_dist_def photon_lost_def
      record_exit_def cell_of_def slabSize_def guard_def cvt_x86_def ln_half_eq assms Let_def)

lemma lost_loop:
  assumes "u k = 1/2" "u (Suc k) = 0" "u (Suc (Suc k)) = 0"
    "u (Suc (Suc (Suc k))) = 7/8" "u (Suc (Suc (Suc (Suc k)))) = 0"
    "u (Suc (Suc (Suc (Suc (Suc k))))) = 0"
    "u (Suc (Suc (Suc (Suc (Suc (Suc k)))))) = 1/2"
  shows "photon_loop cvt_x86 u sz (init_photon, st\<lparr>rng := k\<rparr>)
         = Some (Inr (photon_lost, st\<lparr>Rd := Rd st + Fin (1/3), rng := k + 7\<rparr>))"
proof -
  have "photon_loop cvt_x86 u sz (init_photon, st\<lparr>rng := k\<rparr>)
        = photon_loop cvt_x86 u sz (photon_turned, st\<lparr>rng := Suc (Suc (Suc k))\<rparr>)"
    by (subst photon_loop.simps)
       (simp add: turn_body [of u k, OF assms(1,2,3)] init_photon_def [THEN arg_cong, of weight])
  also have "\<dots> = photon_loop cvt_x86 u sz
        (photon_lost, st\<lparr>rng := Suc (Suc (Suc (Suc (Suc (Suc k)))))\<rparr>)"
    by (subst photon_loop.simps)
       (simp add: lose_body [of u "Suc (Suc (Suc k))", OF assms(4,5,6)] photon_turned_def [THEN arg_cong, of weight])
  also have "\<dots> = Some (Inr (photon_lost, st\<lparr>Rd := Rd st + Fin (1/3), rng := k + 7\<rparr>))"
    by (subst photon_loop.simps)
       (simp add: exit_body [of u "Suc (Suc (Suc (Suc (Suc (Suc k)))))", OF assms(7)] photon_lost_def [THEN arg_cong, of weight]
          eval_nat_numeral)
  finally show ?thesis .
qed

lemma lost_photons:
  "photons n cvt_x86 lost sz \<lparr>Rd = Fin r, Tt = Fin 0, records = recs, rng = 7 * j\<rparr>
   = Some (Inr \<lparr>Rd = Fin (r + real n / 3), Tt = Fin 0, records = recs, rng = 7 * (j + n)\<rparr>)"
proof (induction n arbitrary: r j)
  case 0
  show ?case by simp
next
  case (Suc n)
  have "photon_loop cvt_x86 lost sz
          (init_photon, \<lparr>Rd = Fin r, Tt = Fin 0, records = recs, rng = 7 * j\<rparr>)
        = Some (Inr (photon_lost,
            \<lparr>Rd = Fin (r + 1/3), Tt = Fin 0, records = recs, rng = 7 * Suc j\<rparr>))"
    using lost_loop [of lost "7 * j", OF lost_vals [of j],
        of sz "\<lparr>Rd = Fin r, Tt = Fin 0, records = recs, rng = 7 * j\<rparr>"]
    by simp
  moreover have "r + 1/3 + real n / 3 = r + real (Suc n) / 3" by (simp add: field_simps)
  ultimately show ?case using Suc.IH [of "r + 1/3" "Suc j"] by simp
qed

lemma lost_MCSimulation:
  "MCSimulation cvt_x86 lost 512 (\<lambda>_. Fin 0) 0 = Some (Inr sim_lost)"
  using lost_photons [of nrPhotons 512 0 "\<lambda>_. Fin 0" 0]
  by (simp add: MCSimulation_def sim_lost_def nrPhotons_def)

text \<open>
  With nothing assumed of the conversions the same pass is a fault at its first photon, at
  the conversion of line 86.
\<close>

lemma lost_pass_undefined:
  "MCSimulation cvt_none lost 512 (\<lambda>_. Fin 0) 0 = Some (Inl UndefinedCast)"
proof -
  have v: "lost 0 = 1/2" "lost (Suc 0) = 0" "lost (Suc (Suc 0)) = 0"
    "lost (Suc (Suc (Suc 0))) = 7/8" "lost (Suc (Suc (Suc (Suc 0)))) = 0"
    "lost (Suc (Suc (Suc (Suc (Suc 0))))) = 0"
    "lost (Suc (Suc (Suc (Suc (Suc (Suc 0)))))) = 1/2"
    using lost_vals [of 0] by simp_all
  have e: "body cvt_none lost 512 (photon_lost, sim0\<lparr>rng := Suc (Suc (Suc (Suc (Suc (Suc 0)))))\<rparr>)
           = Fault UndefinedCast"
    using ln_gt_zero [of "2::real"]
    by (simp add: body_def distr_def free_path_Fin boundary_dist_def photon_lost_def
        record_exit_def cell_of_def slabSize_def cvt_none_def ln_half_eq v Let_def)
  have "photon_loop cvt_none lost 512 (init_photon, sim0\<lparr>rng := 0\<rparr>)
        = photon_loop cvt_none lost 512 (photon_turned, sim0\<lparr>rng := Suc (Suc (Suc 0))\<rparr>)"
    by (subst photon_loop.simps)
       (simp add: turn_body [of lost 0, OF v(1,2,3)] init_photon_def [THEN arg_cong, of weight])
  also have "\<dots> = photon_loop cvt_none lost 512
        (photon_lost, sim0\<lparr>rng := Suc (Suc (Suc (Suc (Suc (Suc 0)))))\<rparr>)"
    by (subst photon_loop.simps)
       (simp add: lose_body [of lost "Suc (Suc (Suc 0))", OF v(4,5,6)]
          photon_turned_def [THEN arg_cong, of weight])
  also have "\<dots> = Some (Inl UndefinedCast)"
    by (subst photon_loop.simps) (simp add: e photon_lost_def [THEN arg_cong, of weight])
  finally have "photon_loop cvt_none lost 512 (init_photon, sim0) = Some (Inl UndefinedCast)"
    by (simp add: sim0_def)
  then have "photons (Suc n) cvt_none lost 512 sim0 = Some (Inl UndefinedCast)" for n
    by simp
  from this [of 999999] show ?thesis
    by (simp add: MCSimulation_def sim0_def nrPhotons_def)
qed

text \<open>
  C7. With \<open>m = 10\<close>, the threshold \<open>0.001\<close> and the initial weight 1, the weight of a photon
  is at most 1 at the head of every iteration of its walk, and the sums of a pass satisfy
  \<open>Rd + Tt \<le> nrPhotons\<close>: MCSimulation returns; whenever it returns a state the bound holds
  of it; and it does return a state, for every sequence of deviates, as soon as the
  implementation yields an \<^verbatim>\<open>int\<close> for each conversion.
\<close>

theorem energy_bound:
  "(ps \<in> walk c u sz st0 \<longrightarrow> weight (fst ps) \<le> Fin 1)
   \<and> (\<exists>res. MCSimulation c u sz recs k = Some res
          \<and> (\<forall>st. res = Inr st \<longrightarrow> Rd st + Tt st \<le> Fin (real nrPhotons)))
   \<and> (yields_always c \<longrightarrow>
        (\<exists>st. MCSimulation c u sz recs k = Some (Inr st)
              \<and> Rd st + Tt st \<le> Fin (real nrPhotons)))"
proof -
  have bound: "Rd st + Tt st \<le> Fin (real nrPhotons)" if "tally_ok (real nrPhotons) st" for st
    using that by (auto simp add: tally_ok_def)
  from MCSimulation_total [where c = c and u = u and sz = sz and recs = recs and k = k]
  obtain res where res: "MCSimulation c u sz recs k = Some res"
    "\<forall>st. res = Inr st \<longrightarrow> tally_ok (real nrPhotons) st"
    "yields_always c \<longrightarrow> (\<exists>st. res = Inr st)" by blast
  have w: "ps \<in> walk c u sz st0 \<longrightarrow> weight (fst ps) \<le> Fin 1"
  proof
    assume "ps \<in> walk c u sz st0"
    from walk_weight [OF this] show "weight (fst ps) \<le> Fin 1" by auto
  qed
  have r: "\<exists>res. MCSimulation c u sz recs k = Some res
          \<and> (\<forall>st. res = Inr st \<longrightarrow> Rd st + Tt st \<le> Fin (real nrPhotons))"
    using res(1,2) bound by blast
  have y: "yields_always c \<longrightarrow>
        (\<exists>st. MCSimulation c u sz recs k = Some (Inr st)
              \<and> Rd st + Tt st \<le> Fin (real nrPhotons))"
    using res bound by blast
  from w r y show ?thesis by blast
qed

lemma yields_x86: "yields_always cvt_x86"
  by (simp add: yields_always_def cvt_x86_def)

lemma turned_in_walk: "(photon_turned, sim0\<lparr>rng := 3\<rparr>) \<in> walk cvt_x86 lost 512 sim0"
proof -
  have v: "lost 0 = 1/2" "lost (Suc 0) = 0" "lost (Suc (Suc 0)) = 0"
    using lost_vals(1,2,3) [of 0] by simp_all
  have b: "body cvt_x86 lost 512 (init_photon, sim0)
        = Continue (photon_turned, sim0\<lparr>rng := 3\<rparr>)"
    using turn_body [of lost 0, OF v, of cvt_x86 512 sim0]
    by (simp add: sim0_def eval_nat_numeral)
  show ?thesis
    by (rule walk_step [OF walk_init _ b]) (simp add: init_photon_def)
qed

theorem energy_bound_witness:
  "(photon_turned, sim0\<lparr>rng := 3\<rparr>) \<in> walk cvt_x86 lost 512 sim0
   \<and> weight (fst (photon_turned, sim0\<lparr>rng := 3\<rparr>)) \<le> Fin 1
   \<and> yields_always cvt_x86
   \<and> MCSimulation cvt_x86 lost 512 (\<lambda>_. Fin 0) 0 = Some (Inr sim_lost)
   \<and> Rd sim_lost + Tt sim_lost \<le> Fin (real nrPhotons)"
  using energy_bound [of "(photon_turned, sim0\<lparr>rng := 3\<rparr>)" cvt_x86 lost 512 sim0
      "\<lambda>_. Fin 0" 0]
    turned_in_walk yields_x86 lost_MCSimulation
  by simp


subsection \<open>The end of a walk\<close>

text \<open>
  C10. When an iteration of the loop reaches the absorption step (the photon did not exit at
  line 82) and the clamp of line 103 leaves the weight 0, the walk ends with that iteration:
  with the position of that iteration and the weight 0, with \<open>Rd\<close>, \<open>Tt\<close> and the buffer as
  they were, and after the two deviates of lines 74 and 107 or, when the roulette is
  survived, the two more of ScatterPhoton.
\<close>

theorem clamp_to_zero_ends_walk:
  assumes "\<not> feq (weight p) (Fin 0)"
    and "\<not> boundary_dist p < free_path (Fin (u (rng st)))"
    and "absorb (weight p) = Fin 0"
  shows "\<exists>p' st'. photon_loop c u sz (p, st) = Some (Inr (p', st'))
           \<and> weight p' = Fin 0
           \<and> px p' = px p + free_path (Fin (u (rng st))) * mux p
           \<and> py p' = py p + free_path (Fin (u (rng st))) * muy p
           \<and> pz p' = pz p + free_path (Fin (u (rng st))) * muz p
           \<and> Rd st' = Rd st \<and> Tt st' = Tt st \<and> records st' = records st
           \<and> (rng st' = rng st + 2 \<or> rng st' = rng st + 4)"
proof -
  define p2 where "p2 = p\<lparr>px := px p + free_path (Fin (u (rng st))) * mux p,
      py := py p + free_path (Fin (u (rng st))) * muy p,
      pz := pz p + free_path (Fin (u (rng st))) * muz p, weight := Fin 0\<rparr>"
  have unf: "photon_loop c u sz (p, st) =
      (case body c u sz (p, st) of Break r \<Rightarrow> Some (Inr r) | Fault e \<Rightarrow> Some (Inl e)
       | Continue ps' \<Rightarrow> photon_loop c u sz ps')"
    using assms(1) by (subst photon_loop.simps) simp
  show ?thesis
  proof (cases "Fin 1 / roulette_m < Fin (u (Suc (rng st)))")
    case True
    with assms(2,3) have "body c u sz (p, st) = Break (p2, st\<lparr>rng := Suc (Suc (rng st))\<rparr>)"
      by (simp add: body_def distr_def p2_def Let_def)
    with unf show ?thesis by (simp add: p2_def)
  next
    case False
    obtain p' st' where sc: "scatter u p2 (st\<lparr>rng := Suc (Suc (rng st))\<rparr>) = (p', st')"
      by (cases "scatter u p2 (st\<lparr>rng := Suc (Suc (rng st))\<rparr>)")
    from False assms(2,3) have "body c u sz (p, st) = Continue (p', st')"
      by (simp add: body_def distr_def p2_def roulette_m_def sc [unfolded p2_def] Let_def)
    with unf have "photon_loop c u sz (p, st) = photon_loop c u sz (p', st')" by simp
    moreover from scatter_keeps [OF sc] have k: "weight p' = Fin 0" "px p' = px p2" "py p' = py p2"
      "pz p' = pz p2" "Rd st' = Rd st" "Tt st' = Tt st" "records st' = records st"
      by (simp_all add: p2_def)
    moreover from scatter_rng [OF sc] have "rng st' = rng st + 4" by simp
    ultimately show ?thesis using loop_done [OF k(1), where c = c and u = u and sz = sz and st = st'] by (simp add: p2_def)
  qed
qed

theorem clamp_to_zero_ends_walk_witness:
  "\<not> feq (weight (init_photon\<lparr>weight := Fin (1/3)\<rparr>)) (Fin 0)
   \<and> \<not> boundary_dist (init_photon\<lparr>weight := Fin (1/3)\<rparr>) < free_path (Fin (1/2))
   \<and> absorb (weight (init_photon\<lparr>weight := Fin (1/3)\<rparr>)) = Fin 0
   \<and> (\<exists>p' st'. photon_loop cvt_none (\<lambda>_. 1/2) 512 (init_photon\<lparr>weight := Fin (1/3)\<rparr>, sim0)
                  = Some (Inr (p', st'))
         \<and> weight p' = Fin 0 \<and> pz p' = Fin (- ln (1/2) / 3)
         \<and> Rd st' = Fin 0 \<and> Tt st' = Fin 0 \<and> records st' = (\<lambda>_. Fin 0)
         \<and> (rng st' = 2 \<or> rng st' = 4))"
proof -
  have h1: "\<not> feq (weight (init_photon\<lparr>weight := Fin (1/3)\<rparr>)) (Fin 0)" by simp
  have h2: "\<not> boundary_dist (init_photon\<lparr>weight := Fin (1/3)\<rparr>)
       < free_path (Fin ((\<lambda>_. 1/2) (rng sim0)))"
    using ln_half by (simp add: boundary_dist_def init_photon_def slab_d_def minus_fl_def free_path_Fin)
  have h3: "absorb (weight (init_photon\<lparr>weight := Fin (1/3)\<rparr>)) = Fin 0"
    by (simp add: absorb_Fin)
  from clamp_to_zero_ends_walk [where c = cvt_none and u = "\<lambda>_. 1/2" and st = sim0 and sz = 512
      and p = "init_photon\<lparr>weight := Fin (1/3)\<rparr>", OF h1 h2 h3] h1 h2 h3 show ?thesis
    by (auto simp add: init_photon_def free_path_Fin sim0_def)
qed

end
